theory Spec2Isabelle
  imports Complex_Main "HOL-Library.Sublist"
begin

section \<open>Data model of the report generator\<close>

text \<open>
  The development embeds \<^verbatim>\<open>client/lib/client-pdf-generator.ts\<close> (the function
  \<^verbatim>\<open>generatePersonalizedPDFClient\<close>) and the page estimate of
  \<^verbatim>\<open>client/pages/Download.tsx\<close> (\<^verbatim>\<open>generatePDF\<close>).

  Conventions.
  \<^item> A TypeScript \<^verbatim>\<open>number\<close> is a \<^typ>\<open>real\<close>; the values \<^verbatim>\<open>NaN\<close> and
    \<^verbatim>\<open>Infinity\<close> are therefore not inputs, and arithmetic is exact. The cursor only
    ever adds multiples of one half, which doubles represent exactly.
  \<^item> A string is a \<^typ>\<open>string\<close>, a list of 8-bit characters; the literals of the source
    are given in UTF-8, the non-ASCII glyphs through the constants below.
  \<^item> What the source obtains from the jsPDF object and the JavaScript runtime (page size,
    text wrapping, number and date formatting) is not part of the repository; it is the
    record \<open>runtime\<close>, a parameter of every definition that needs it.
\<close>

datatype tier = Free | Essential | Premium | Coaching

datatype language = En | Hi

type_synonym color = "nat \<times> nat \<times> nat"

record PersonalizationProfile =
  name :: string
  email :: string
  age :: real
  gender :: string
  estimatedHeightCm :: real
  estimatedWeightKg :: real
  estimatedBMR :: real
  estimatedTDEE :: real
  proteinGrams :: real
  carbsGrams :: real
  fatsGrams :: real
  stressScore :: real
  sleepScore :: real
  activityScore :: real
  energyScore :: real
  medicalConditions :: "string list"
  digestiveIssues :: "string list"
  foodIntolerances :: "string list"
  skinConcerns :: "string list"
  dietaryPreference :: string
  exercisePreference :: "string list"
  workSchedule :: string
  region :: string
  recommendedTests :: "string list"
  supplementPriority :: "string list"
  exerciseIntensity :: string
  mealFrequency :: real
  dnaConsent :: bool

record calorie_range =
  min_calories :: real
  max_calories :: real

record macro_ratios =
  protein :: real
  carbs :: real
  fats :: real

record supplement =
  supplement_name :: string
  reason :: string
  dosage :: string

record PersonalizationInsights =
  metabolicInsight :: string
  recommendedMealTimes :: "string list"
  calorieRange :: calorie_range
  macroRatios :: macro_ratios
  supplementStack :: "supplement list"
  workoutStrategy :: string
  sleepStrategy :: string
  stressStrategy :: string

record PersonalizationData =
  profile :: PersonalizationProfile
  insights :: PersonalizationInsights

text \<open>\<^verbatim>\<open>addOns\<close> and \<^verbatim>\<open>language\<close> are optional fields of the source's options.\<close>

record PDFGenerationOptions =
  tier :: tier
  addOns :: "string list option"
  orderId :: string
  timestamp :: string
  language :: "language option"

text \<open>
  The collaborators outside the repository: \<^verbatim>\<open>pdf.internal.pageSize\<close>,
  \<^verbatim>\<open>pdf.splitTextToSize\<close> (which wraps with the font size and style current in the
  jsPDF object), the conversion of a number inside a template literal, and the two
  locale formatters applied to \<^verbatim>\<open>new Date(timestamp)\<close>.
\<close>

record runtime =
  pageWidth :: real
  pageHeight :: real
  splitTextToSize :: "real \<Rightarrow> bool \<Rightarrow> string \<Rightarrow> real \<Rightarrow> string list"
  numberToString :: "real \<Rightarrow> string"
  toLocaleDateString :: "string \<Rightarrow> string"
  toLocaleTimeString :: "string \<Rightarrow> string"

section \<open>The document under construction\<close>

text \<open>
  What has been put on the pages. A text records who drew it, its page, the coordinates
  handed to \<^verbatim>\<open>pdf.text\<close>, the lines, and the font size, weight and colour in force;
  a rule records its page, its end points and the draw colour.
\<close>

datatype origin = Direct | HeaderTitle | HeaderSubtitle | SubSectionTitle | Paragraph | Bullet

datatype drawing =
    TextAt origin nat real real "string list" real bool color
  | LineAt nat real real real real color

text \<open>
  The mutable state of one invocation: the jsPDF object (number of pages, of which the
  last is the current one; font size, weight, text and draw colour; the drawings so far)
  and the closure variable \<^verbatim>\<open>yPosition\<close>.
\<close>

record pdf =
  pages :: nat
  yPosition :: real
  fontSize :: real
  fontBold :: bool
  textColor :: color
  drawColor :: color
  drawn :: "drawing list"

definition margin :: real where
  "margin = 15"

definition contentWidth :: "runtime \<Rightarrow> real" where
  "contentWidth L = pageWidth L - margin * 2"

text \<open>
  \<^verbatim>\<open>new jsPDF(...)\<close> followed by \<^verbatim>\<open>let yPosition = margin\<close>: one empty page, and
  jsPDF's defaults (16 pt, normal weight, black), all of which the cover page overwrites
  before it draws.
\<close>

definition new_jsPDF :: pdf where
  "new_jsPDF = \<lparr>pages = 1, yPosition = margin, fontSize = 16, fontBold = False,
     textColor = (0, 0, 0), drawColor = (0, 0, 0), drawn = []\<rparr>"

definition draw :: "drawing \<Rightarrow> pdf \<Rightarrow> pdf" where
  "draw d s = s\<lparr>drawn := drawn s @ [d]\<rparr>"

definition addNewPage :: "pdf \<Rightarrow> pdf" where
  "addNewPage s = s\<lparr>pages := pages s + 1, yPosition := margin\<rparr>"

definition checkPageBreak :: "runtime \<Rightarrow> real \<Rightarrow> pdf \<Rightarrow> pdf" where
  "checkPageBreak L spaceNeeded s =
     (if yPosition s + spaceNeeded > pageHeight L - margin then addNewPage s else s)"

text \<open>\<^verbatim>\<open>if (subtitle)\<close> is false for a missing subtitle and for the empty string.\<close>

definition addHeaderSection :: "runtime \<Rightarrow> string \<Rightarrow> string option \<Rightarrow> pdf \<Rightarrow> pdf" where
  "addHeaderSection L title subtitle s =
     (let s1 = checkPageBreak L 15 s;
          s2 = s1\<lparr>fontSize := 20, textColor := (45, 55, 72), fontBold := True\<rparr>;
          s3 = draw (TextAt HeaderTitle (pages s2) margin (yPosition s2) [title]
                 20 True (45, 55, 72)) s2;
          s4 = s3\<lparr>yPosition := yPosition s3 + 10\<rparr>;
          s5 = (case subtitle of
                  None \<Rightarrow> s4
                | Some sub \<Rightarrow>
                    if sub = [] then s4
                    else
                      let t1 = s4\<lparr>fontSize := 11, textColor := (113, 128, 150),
                                 fontBold := False\<rparr>;
                          subtitleLines = splitTextToSize L 11 False sub (contentWidth L);
                          t2 = draw (TextAt HeaderSubtitle (pages t1) margin (yPosition t1)
                                 subtitleLines 11 False (113, 128, 150)) t1
                      in t2\<lparr>yPosition := yPosition t2 + real (length subtitleLines) * 4 + 2\<rparr>);
          s6 = s5\<lparr>drawColor := (229, 231, 235)\<rparr>;
          s7 = draw (LineAt (pages s6) margin (yPosition s6) (pageWidth L - margin)
                 (yPosition s6) (229, 231, 235)) s6
      in s7\<lparr>yPosition := yPosition s7 + 5\<rparr>)"

definition addSubSection :: "runtime \<Rightarrow> string \<Rightarrow> pdf \<Rightarrow> pdf" where
  "addSubSection L title s =
     (let s1 = checkPageBreak L 10 s;
          s2 = s1\<lparr>fontSize := 13, textColor := (74, 85, 104), fontBold := True\<rparr>;
          s3 = draw (TextAt SubSectionTitle (pages s2) margin (yPosition s2) [title]
                 13 True (74, 85, 104)) s2
      in s3\<lparr>yPosition := yPosition s3 + 7\<rparr>)"

definition addText :: "runtime \<Rightarrow> string \<Rightarrow> real \<Rightarrow> color \<Rightarrow> bool \<Rightarrow> pdf \<Rightarrow> pdf" where
  "addText L text fsize color isBold s =
     (let s1 = checkPageBreak L 8 s;
          s2 = s1\<lparr>fontSize := fsize, textColor := color, fontBold := isBold\<rparr>;
          lines = splitTextToSize L fsize isBold text (contentWidth L);
          s3 = draw (TextAt Paragraph (pages s2) margin (yPosition s2) lines
                 fsize isBold color) s2
      in s3\<lparr>yPosition := yPosition s3 + real (length lines) * 4.5 + 2\<rparr>)"

definition bullet_glyph :: string where
  "bullet_glyph = [CHR 0xE2, CHR 0x80, CHR 0xA2]"

definition addBulletPoint :: "runtime \<Rightarrow> string \<Rightarrow> real \<Rightarrow> pdf \<Rightarrow> pdf" where
  "addBulletPoint L text fsize s =
     (let s1 = checkPageBreak L 6 s;
          s2 = s1\<lparr>fontSize := fsize, textColor := (17, 24, 39), fontBold := False\<rparr>;
          lines = splitTextToSize L fsize False (bullet_glyph @ '' '' @ text)
                    (contentWidth L - 5);
          s3 = draw (TextAt Bullet (pages s2) (margin + 5) (yPosition s2) lines
                 fsize False (17, 24, 39)) s2
      in s3\<lparr>yPosition := yPosition s3 + real (length lines) * 4 + 1\<rparr>)"

section \<open>The calls the generator makes\<close>

text \<open>
  \<^verbatim>\<open>generatePersonalizedPDFClient\<close> is straight-line code: calls of the four helpers and
  of \<^verbatim>\<open>addNewPage\<close>, and, on the cover, the top-actions page and the closing page, direct
  calls of the jsPDF object with explicit cursor arithmetic. Each call is a \<open>cmd\<close>;
  \<open>exec\<close> gives its effect on the state and \<open>run\<close> performs a sequence of calls
  in order.

  \<open>PdfSplitText text k g\<close> is the source's recurring triple
  \<^verbatim>\<open>lines = pdf.splitTextToSize(text, contentWidth); pdf.text(lines, margin, yPosition);
  yPosition += lines.length * k + g\<close>.
\<close>

datatype cmd =
    SetFontSize real
  | SetTextColor color
  | SetFont bool
  | SetDrawColor color
  | PdfText string
  | PdfSplitText string real real
  | PdfLine
  | Advance real
  | AddNewPage
  | AddHeaderSection string "string option"
  | AddSubSection string
  | AddText string real color bool
  | AddBulletPoint string real

fun exec :: "runtime \<Rightarrow> cmd \<Rightarrow> pdf \<Rightarrow> pdf" where
  "exec L (SetFontSize n) s = s\<lparr>fontSize := n\<rparr>"
| "exec L (SetTextColor c) s = s\<lparr>textColor := c\<rparr>"
| "exec L (SetFont b) s = s\<lparr>fontBold := b\<rparr>"
| "exec L (SetDrawColor c) s = s\<lparr>drawColor := c\<rparr>"
| "exec L (PdfText t) s =
     draw (TextAt Direct (pages s) margin (yPosition s) [t]
       (fontSize s) (fontBold s) (textColor s)) s"
| "exec L (PdfSplitText t k g) s =
     (let lines = splitTextToSize L (fontSize s) (fontBold s) t (contentWidth L);
          s1 = draw (TextAt Direct (pages s) margin (yPosition s) lines
                 (fontSize s) (fontBold s) (textColor s)) s
      in s1\<lparr>yPosition := yPosition s1 + real (length lines) * k + g\<rparr>)"
| "exec L PdfLine s =
     draw (LineAt (pages s) margin (yPosition s) (pageWidth L - margin) (yPosition s)
       (drawColor s)) s"
| "exec L (Advance d) s = s\<lparr>yPosition := yPosition s + d\<rparr>"
| "exec L AddNewPage s = addNewPage s"
| "exec L (AddHeaderSection title subtitle) s = addHeaderSection L title subtitle s"
| "exec L (AddSubSection title) s = addSubSection L title s"
| "exec L (AddText text fsize color isBold) s = addText L text fsize color isBold s"
| "exec L (AddBulletPoint text fsize) s = addBulletPoint L text fsize s"

definition run :: "runtime \<Rightarrow> cmd list \<Rightarrow> pdf \<Rightarrow> pdf" where
  "run L cs s = foldl (\<lambda>st c. exec L c st) s cs"

section \<open>Text of the report\<close>

definition em_dash :: string where
  "em_dash = [CHR 0xE2, CHR 0x80, CHR 0x94]"

definition en_dash :: string where
  "en_dash = [CHR 0xE2, CHR 0x80, CHR 0x93]"

definition right_arrow :: string where
  "right_arrow = [CHR 0xE2, CHR 0x86, CHR 0x92]"

definition left_arrow :: string where
  "left_arrow = [CHR 0xE2, CHR 0x86, CHR 0x90]"

definition degree_sign :: string where
  "degree_sign = [CHR 0xC2, CHR 0xB0]"

definition light_bulb :: string where
  "light_bulb = [CHR 0xF0, CHR 0x9F, CHR 0x92, CHR 0xA1]"

definition newline :: string where
  "newline = [CHR 0x0A]"

text \<open>The default value of the parameter \<^verbatim>\<open>color\<close> of \<^verbatim>\<open>addText\<close>.\<close>

definition default_color :: color where
  "default_color = (17, 24, 39)"

text \<open>A tier inside a template literal, and the table \<^verbatim>\<open>tierNames\<close>.\<close>

fun tier_string :: "tier \<Rightarrow> string" where
  "tier_string Free = ''free''"
| "tier_string Essential = ''essential''"
| "tier_string Premium = ''premium''"
| "tier_string Coaching = ''coaching''"

fun tierNames :: "tier \<Rightarrow> string" where
  "tierNames Free = ''Free Edition''"
| "tierNames Essential = ''Essential Edition''"
| "tierNames Premium = ''Premium Edition''"
| "tierNames Coaching = ''Complete Coaching Edition''"

text \<open>
  Case conversion on the ASCII letters; every other character is left as it is. This is
  \<^verbatim>\<open>toLowerCase\<close> and \<^verbatim>\<open>toUpperCase\<close> on ASCII text.
\<close>

definition upper_letters :: string where
  "upper_letters = ''ABCDEFGHIJKLMNOPQRSTUVWXYZ''"

definition lower_letters :: string where
  "lower_letters = ''abcdefghijklmnopqrstuvwxyz''"

definition digits :: string where
  "digits = ''0123456789''"

definition lower_char :: "char \<Rightarrow> char" where
  "lower_char c = (case map_of (zip upper_letters lower_letters) c of
                     Some d \<Rightarrow> d | None \<Rightarrow> c)"

definition upper_char :: "char \<Rightarrow> char" where
  "upper_char c = (case map_of (zip lower_letters upper_letters) c of
                     Some d \<Rightarrow> d | None \<Rightarrow> c)"

definition toLowerCase :: "string \<Rightarrow> string" where
  "toLowerCase s = map lower_char s"

definition toUpperCase :: "string \<Rightarrow> string" where
  "toUpperCase s = map upper_char s"

text \<open>An array element inside a template literal: a missing one prints as \<^verbatim>\<open>undefined\<close>.\<close>

definition element_text :: "string list \<Rightarrow> nat \<Rightarrow> string" where
  "element_text xs i = (if i < length xs then xs ! i else ''undefined'')"

text \<open>
  \<^verbatim>\<open>insights.recommendedMealTimes[0]?.split(" ")[0] || "7:00"\<close>: the part of the first
  meal time before its first space, and \<^verbatim>\<open>7:00\<close> when there is no meal time or that
  part is empty.
\<close>

definition wake_time :: "string list \<Rightarrow> string" where
  "wake_time mealTimes =
     (case mealTimes of
        [] \<Rightarrow> ''7:00''
      | t # _ \<Rightarrow> (let w = takeWhile (\<lambda>c. c \<noteq> CHR '' '') t
                  in if w = [] then ''7:00'' else w))"

text \<open>
  \<^verbatim>\<open>Math.round\<close> rounds to the nearest integer, a tie upwards. The percentage of a
  macronutrient is \<^verbatim>\<open>Math.round(((grams * kcal) / estimatedTDEE) * 100)\<close>; with a TDEE
  of zero the quotient is infinite or not a number, and prints as such.
\<close>

definition js_round :: "real \<Rightarrow> int" where
  "js_round x = \<lfloor>x + 1 / 2\<rfloor>"

definition macroPct :: "real \<Rightarrow> real \<Rightarrow> real \<Rightarrow> int" where
  "macroPct grams kcal tdee = js_round (((grams * kcal) / tdee) * 100)"

definition proteinPct :: "PersonalizationProfile \<Rightarrow> int" where
  "proteinPct p = macroPct (proteinGrams p) 4 (estimatedTDEE p)"

definition carbsPct :: "PersonalizationProfile \<Rightarrow> int" where
  "carbsPct p = macroPct (carbsGrams p) 4 (estimatedTDEE p)"

definition fatsPct :: "PersonalizationProfile \<Rightarrow> int" where
  "fatsPct p = macroPct (fatsGrams p) 9 (estimatedTDEE p)"

definition pct_text :: "runtime \<Rightarrow> real \<Rightarrow> real \<Rightarrow> real \<Rightarrow> string" where
  "pct_text L grams kcal tdee =
     (if tdee = 0 then
        (if grams * kcal = 0 then ''NaN''
         else if 0 < grams * kcal then ''Infinity'' else ''-Infinity'')
      else numberToString L (real_of_int (macroPct grams kcal tdee)))"

section \<open>The blocks of the generator\<close>

text \<open>
  One definition for each block that the source marks with a comment
  \<^verbatim>\<open>// === ... ===\<close>, in the order of the source; the calls are those of the block, in
  order. The block that the nutrition plan adds for the upper tiers is named by the page
  estimate of \<^verbatim>\<open>Download.tsx\<close> (\<^verbatim>\<open>// Meal plan details\<close>). The closing page has no
  comment of its own in either file: it is the tail of the action-plan block.
\<close>

datatype report_section =
    Cover | TopActions | ExecutiveSummary | ScienceUpdates | MetabolicProfile
  | NutritionPlan | MealPlanDetail | SleepProtocol | MovementPlan | StressManagement
  | Supplements | ProgressTracking | ActionPlan

text \<open>
  \<^verbatim>\<open>// === COVER PAGE ===\<close>. The introduction is wrapped just before the last
  \<^verbatim>\<open>setFontSize(10)\<close>, at a moment when the size is 10 already.
\<close>

definition cover_page ::
  "runtime \<Rightarrow> PersonalizationProfile \<Rightarrow> PDFGenerationOptions \<Rightarrow> cmd list" where
  "cover_page L p opts =
     [SetFontSize 32, SetTextColor (124, 58, 237), SetFont True,
      PdfText ''Your Wellness Blueprint'', Advance 15,
      SetFontSize 28, SetTextColor (17, 24, 39),
      PdfText (name p), Advance 12,
      SetFontSize 14, SetTextColor (74, 85, 104),
      PdfText (tierNames (tier opts) @ '' '' @ em_dash
        @ '' Science-Based & Fully Personalized''), Advance 15,
      SetFontSize 10, SetTextColor (113, 128, 150),
      PdfText (''Generated: '' @ toLocaleDateString L (timestamp opts) @ '' at ''
        @ toLocaleTimeString L (timestamp opts)), Advance 5,
      PdfText (''Order ID: '' @ orderId opts), Advance 5,
      PdfText (''Plan Tier: '' @ toUpperCase (tier_string (tier opts))), Advance 8,
      SetTextColor (17, 24, 39),
      PdfText (''Age: '' @ numberToString L (age p) @ '' | Gender: '' @ gender p),
      Advance 5,
      PdfText (''Height: '' @ numberToString L (estimatedHeightCm p) @ ''cm | Weight: ''
        @ numberToString L (estimatedWeightKg p) @ ''kg''), Advance 12,
      SetFontSize 10,
      PdfSplitText (''Dear '' @ name p @ '','' @ newline @ newline
        @ ''This personalized wellness blueprint is uniquely designed for you, based on your quiz answers, lifestyle, and goals. Every recommendation is science-backed and actionable.''
        @ newline @ newline
        @ ''Follow the daily and weekly steps consistently, and you'll see measurable improvements within 30 days.'')
        0 0,
      AddNewPage]"

text \<open>\<^verbatim>\<open>// === PAGE 1: TOP 3 ACTIONS ===\<close>\<close>

definition top_actions ::
  "PersonalizationProfile \<Rightarrow> PersonalizationInsights \<Rightarrow> cmd list" where
  "top_actions p i =
     [SetFontSize 20, SetTextColor (45, 55, 72), SetFont True,
      PdfText (name p @ '''s Top 3 Actions This Week''), Advance 8,
      SetFontSize 10, SetTextColor (113, 128, 150), SetFont False,
      PdfSplitText (''Start here'' @ em_dash
        @ ''these three changes will have the biggest impact on your energy and results'')
        4 3,
      SetDrawColor (229, 231, 235), PdfLine, Advance 6,
      SetFontSize 12, SetTextColor (124, 58, 237), SetFont True,
      PdfText ''1. Lock Your Wake Time'', Advance 5,
      SetFontSize 9, SetTextColor (17, 24, 39), SetFont False,
      PdfSplitText (''Wake at '' @ wake_time (recommendedMealTimes i)
        @ '' AM every day (including weekends) for 30 days. This single action resets your circadian rhythm and improves sleep quality within days.'')
        4 4,
      SetFontSize 12, SetTextColor (124, 58, 237), SetFont True,
      PdfText (''2. Eat Within a 10'' @ en_dash @ ''12 Hour Window''), Advance 5,
      SetFontSize 9, SetTextColor (17, 24, 39), SetFont False,
      PdfSplitText (''Breakfast: '' @ element_text (recommendedMealTimes i) 0
        @ '' | Lunch: '' @ element_text (recommendedMealTimes i) 1
        @ '' | Dinner: '' @ element_text (recommendedMealTimes i) 2
        @ '' | Stop eating after '' @ element_text (recommendedMealTimes i) 2
        @ ''. This simple timing synchronizes your metabolism and digestion.'')
        4 4,
      SetFontSize 12, SetTextColor (124, 58, 237), SetFont True,
      PdfText (''3. Move for 20'' @ en_dash @ ''30 Minutes, 3x This Week''), Advance 5,
      SetFontSize 9, SetTextColor (17, 24, 39), SetFont False,
      PdfSplitText ''Any movement counts: walk, yoga, gym, dancing. Research shows this alone reduces stress by 40%, increases energy, and improves sleep. Start with what feels easy.''
        4 6,
      SetFontSize 8, SetTextColor (107, 114, 128),
      PdfSplitText (light_bulb
        @ '' Pro Tip: These three actions work together. Lock your wake time first (it sets everything else). Add meal timing in week 2. Add movement in week 3. Small steps, big results.'')
        0 0,
      AddNewPage]"

text \<open>\<^verbatim>\<open>// === EXECUTIVE SUMMARY ===\<close>\<close>

definition executive_summary ::
  "runtime \<Rightarrow> PersonalizationProfile \<Rightarrow> PersonalizationInsights \<Rightarrow> cmd list" where
  "executive_summary L p i =
     [AddHeaderSection ''Executive Summary''
        (Some (name p @ '''s Personalized Wellness Analysis'')),
      AddText (metabolicInsight i) 10 default_color False,
      AddSubSection ''Your Wellness Baseline'',
      AddText (''Energy Level: '' @ numberToString L (energyScore p) @ ''/100'')
        9 default_color False,
      AddText (''Sleep Quality: '' @ numberToString L (sleepScore p) @ ''/100'')
        9 default_color False,
      AddText (''Stress Resilience: '' @ numberToString L (stressScore p) @ ''/100'')
        9 default_color False,
      AddText (''Physical Activity: '' @ numberToString L (activityScore p) @ ''/100'')
        9 default_color False,
      AddSubSection ''Critical Blood Work (Baseline)'',
      AddText ''Get these tests done BEFORE starting (compare at 6 & 12 weeks):''
        8 default_color False]
     @ map (\<lambda>test. AddBulletPoint test 8) (take 6 (recommendedTests p))"

text \<open>\<^verbatim>\<open>// === PREMIUM INSIGHTS ===\<close>\<close>

definition premium_insights :: "cmd list" where
  "premium_insights =
     [AddNewPage,
      AddHeaderSection ''Latest Science Updates''
        (Some ''Real-time health insights based on 2024 research''),
      AddText ''Your personalized plan incorporates the latest wellness research from 2024. These insights are unique to your profile and goals.''
        9 default_color False,
      AddSubSection ''Your Personalized Research Insights'',
      AddBulletPoint ''Sleep: Recent studies confirm that sleep consistency matters more than duration. Your target is to wake at the same time daily, including weekends.''
        8,
      AddBulletPoint ''Nutrition: 2024 research shows Mediterranean diet principles dramatically improve longevity. We've adapted this to your Indian diet preferences.''
        8,
      AddBulletPoint ''Exercise: Zone 2 training (conversational pace cardio) is proven to enhance aerobic capacity without overtraining. Aim for 2-3 sessions weekly.''
        8,
      AddBulletPoint ''Stress: Cold exposure (15-30 seconds) activates your vagus nerve and improves resilience. Start conservative if new to cold.''
        8]"

text \<open>\<^verbatim>\<open>// === METABOLIC PROFILE ===\<close>\<close>

definition metabolic_profile :: "runtime \<Rightarrow> PersonalizationProfile \<Rightarrow> cmd list" where
  "metabolic_profile L p =
     [AddNewPage,
      AddHeaderSection ''Your Metabolic Profile''
        (Some (name p @ '''s Personal Energy Calculation'')),
      AddText ''Based on your age, gender, activity level, and body composition:''
        9 default_color False,
      AddText (''Basal Metabolic Rate (BMR): '' @ numberToString L (estimatedBMR p)
        @ '' calories/day'') 10 (17, 24, 39) True,
      AddText ''Energy your body burns at complete rest (breathing, circulation, brain).''
        8 (107, 114, 128) False,
      AddText (''Total Daily Energy Expenditure (TDEE): ''
        @ numberToString L (estimatedTDEE p) @ '' calories/day'') 10 (17, 24, 39) True,
      AddText ''Your actual daily calorie burn, including activity.''
        8 (107, 114, 128) False,
      AddSubSection ''What This Means for Weight Management'',
      AddText (right_arrow @ '' To maintain weight: Eat ~''
        @ numberToString L (estimatedTDEE p) @ '' calories daily'') 9 default_color False,
      AddText (right_arrow @ '' To lose fat: Eat ''
        @ numberToString L (estimatedTDEE p - 300) @ '' - ''
        @ numberToString L (estimatedTDEE p - 500) @ '' calories/day'')
        9 default_color False,
      AddText (right_arrow @ '' To gain muscle: Eat ''
        @ numberToString L (estimatedTDEE p + 300) @ '' - ''
        @ numberToString L (estimatedTDEE p + 500) @ '' calories/day'')
        9 default_color False,
      AddSubSection ''Daily Macronutrient Targets'',
      AddText (''Protein: '' @ numberToString L (proteinGrams p) @ ''g/day (''
        @ pct_text L (proteinGrams p) 4 (estimatedTDEE p) @ ''%)'') 9 default_color False,
      AddText ''For muscle preservation and satiety. 1.8-2.2g per kg body weight is optimal.''
        8 (107, 114, 128) False,
      AddText (''Carbs: '' @ numberToString L (carbsGrams p) @ ''g/day (''
        @ pct_text L (carbsGrams p) 4 (estimatedTDEE p) @ ''%)'') 9 default_color False,
      AddText ''Fuels workouts, brain, and recovery. Timing matters (pre/post-workout).''
        8 (107, 114, 128) False,
      AddText (''Fats: '' @ numberToString L (fatsGrams p) @ ''g/day (''
        @ pct_text L (fatsGrams p) 9 (estimatedTDEE p) @ ''%)'') 9 default_color False,
      AddText ''Essential for hormones, brain, and nutrient absorption.''
        8 (107, 114, 128) False,
      AddNewPage]"

text \<open>
  \<^verbatim>\<open>// === NUTRITION PLAN ===\<close>, up to the nested test of the tier. The labels of the
  meal times are read from a three-element array by the index of the meal time.
\<close>

definition nutrition_plan ::
  "PersonalizationProfile \<Rightarrow> PersonalizationInsights \<Rightarrow> cmd list" where
  "nutrition_plan p i =
     [AddHeaderSection ''Personalized Nutrition Plan''
        (Some (name p @ '''s Optimal Eating Strategy'')),
      AddSubSection ''Your Meal Timing (Circadian Optimization)'']
     @ map (\<lambda>(idx, time).
          AddText (element_text [''Breakfast'', ''Lunch'', ''Dinner''] idx @ '': '' @ time)
            9 default_color False)
        (enumerate 0 (recommendedMealTimes i))
     @ [AddText ''Research shows eating within consistent windows synchronizes your circadian rhythm, improves digestion, and stabilizes blood sugar.''
        8 (107, 114, 128) False,
      AddSubSection ''Core Nutrition Framework (Every Meal)'',
      AddBulletPoint ''Protein source (eggs, Greek yogurt, paneer, dal, chicken, tofu)'' 8,
      AddBulletPoint ''Carb source (rice, roti, oats, sweet potato, quinoa)'' 8,
      AddBulletPoint ''Vegetable (minimum 2 cups, variety of colors)'' 8,
      AddBulletPoint ''Healthy fat (olive oil, ghee, nuts, avocado)'' 8]"

text \<open>The block nested in the nutrition plan for the premium and coaching tiers.\<close>

definition meal_plan_detail :: "cmd list" where
  "meal_plan_detail =
     [AddNewPage,
      AddSubSection ''7-Day Meal Plan Framework'',
      AddText ''Use this as a template. Mix and match based on your preferences:''
        9 default_color False]
     @ map (\<lambda>meal. AddBulletPoint meal 8)
        [''Breakfast: 2-3 eggs + oats with banana + 1 tsp ghee'',
         ''Mid-morning: Greek yogurt + berries + almonds'',
         ''Lunch: Grilled chicken + brown rice + roasted broccoli + olive oil'',
         ''Afternoon: Apple + peanut butter'',
         ''Dinner: Lentil dal + roti + spinach curry'',
         ''Optional evening: Casein (Greek yogurt) if hungry after 8 PM'']
     @ [AddSubSection ''Indian Grocery Shopping List'',
      AddText ''Proteins: Chicken breast, Fish, Paneer, Moong/Arhar dal, Eggs''
        8 default_color False,
      AddText ''Vegetables: Spinach, Broccoli, Bell peppers, Carrots, Cauliflower, Tomatoes''
        8 default_color False,
      AddText ''Grains: Brown rice, Whole wheat roti, Oats, Quinoa, Millets''
        8 default_color False,
      AddText ''Healthy Fats: Olive oil, Ghee, Almonds, Peanuts, Sesame oil''
        8 default_color False,
      AddSubSection ''Hydration Protocol (Science-Based)'',
      AddBulletPoint ''Upon waking: 500ml water (rehydrates after 8-hour fast)'' 8,
      AddBulletPoint ''With meals: 250ml water (aids digestion)'' 8,
      AddBulletPoint ''Between meals: Drink when thirsty'' 8,
      AddBulletPoint ''Daily target: 2-2.5 liters (adjust for climate, activity)'' 8,
      AddBulletPoint ''After 7 PM: Reduce intake (minimize nighttime urination)'' 8,
      AddNewPage]"

text \<open>\<^verbatim>\<open>// === SLEEP OPTIMIZATION ===\<close>\<close>

definition sleep_optimization ::
  "PersonalizationProfile \<Rightarrow> PersonalizationInsights \<Rightarrow> tier \<Rightarrow> cmd list" where
  "sleep_optimization p i t =
     [AddHeaderSection ''Sleep Optimization Protocol''
        (Some (name p @ '''s Critical Recovery Foundation'')),
      AddText (sleepStrategy i) 9 default_color False,
      AddSubSection ''Sleep Hygiene Checklist'',
      AddBulletPoint (''Consistent sleep-wake time (even weekends) '' @ left_arrow
        @ '' Most important'') 8,
      AddBulletPoint ''Dark room: <5 lux (blackout curtains or eye mask)'' 8,
      AddBulletPoint (''Cool temperature: 65-68'' @ degree_sign @ ''F (18-20''
        @ degree_sign @ ''C)'') 8,
      AddBulletPoint ''Quiet environment: <30 dB (earplugs or white noise)'' 8,
      AddBulletPoint ''No blue light 60-90 min before bed'' 8,
      AddBulletPoint ''No caffeine after 2 PM (5-6 hour half-life)'' 8,
      AddBulletPoint ''Warm bath/tea 90 min before bed (triggers melatonin)'' 8]
     @ (if t \<noteq> Free then
          [AddSubSection ''Sleep Supplements (If Protocol Alone Isn't Enough)'',
           AddBulletPoint ''Magnesium Glycinate: 300-400mg, 60 min before bed'' 8,
           AddBulletPoint ''L-Theanine: 100-200mg, optional with magnesium'' 8,
           AddBulletPoint ''Herbal tea: Chamomile or passionflower (traditional)'' 8,
           AddText (right_arrow
             @ '' Try protocol first for 2 weeks minimum. Then add one supplement at a time.'')
             8 (107, 114, 128) False]
        else [])
     @ [AddNewPage]"

text \<open>\<^verbatim>\<open>// === MOVEMENT & FITNESS ===\<close>\<close>

definition workoutType :: "tier \<Rightarrow> string" where
  "workoutType t =
     (if t = Essential then ''3-Day Beginner''
      else if t = Premium then ''5-Day Intermediate''
      else ''6-Day Advanced'')"

definition movement_fitness ::
  "PersonalizationProfile \<Rightarrow> PersonalizationInsights \<Rightarrow> tier \<Rightarrow> cmd list" where
  "movement_fitness p i t =
     [AddHeaderSection ''Movement & Training Plan''
        (Some (name p @ '''s Personalized Exercise Protocol'')),
      AddText (workoutStrategy i) 9 default_color False,
      AddSubSection (workoutType t @ '' Weekly Schedule'')]
     @ (if t = Essential then
          [AddText ''Monday: Full Body Strength (30 min)'' 9 default_color False,
           AddBulletPoint ''Push-ups or chest press: 3 sets x 8-12 reps'' 8,
           AddBulletPoint ''Squats or leg press: 3 sets x 12-15 reps'' 8,
           AddBulletPoint ''Plank or core: 3 sets x 30-60 seconds'' 8,
           AddText ''Wednesday: Zone 2 Cardio (30 min, conversational pace)''
             9 default_color False,
           AddBulletPoint ''Brisk walk, jog, or cycle at easy pace'' 8,
           AddText ''Friday: Flexibility & Recovery (20 min)'' 9 default_color False,
           AddBulletPoint ''Yoga, stretching, deep breathing'' 8]
        else if t = Premium then
          [AddText ''Monday: Lower Body Strength (45 min)'' 9 default_color False,
           AddBulletPoint ''Focus: Squat, deadlift variations'' 8,
           AddText ''Tuesday: Upper Body Push (45 min)'' 9 default_color False,
           AddBulletPoint ''Focus: Chest, shoulders, triceps'' 8,
           AddText ''Wednesday: Active Recovery (30 min)'' 9 default_color False,
           AddBulletPoint ''Walk, yoga, or light mobility'' 8,
           AddText ''Thursday: Upper Body Pull (45 min)'' 9 default_color False,
           AddBulletPoint ''Focus: Back, biceps, rear delts'' 8,
           AddText ''Friday: Full Body Power (45 min)'' 9 default_color False,
           AddBulletPoint ''Focus: Olympic lift patterns, explosive movements'' 8,
           AddText ''Sat-Sun: Optional light activity or complete rest''
             9 default_color False]
        else
          [AddText ''6-day periodized program with progressive overload''
             9 default_color False,
           AddText (''Phases: Strength (weeks 1-4) '' @ right_arrow
             @ '' Hypertrophy (weeks 5-8) '' @ right_arrow @ '' Power (weeks 9-12)'')
             9 default_color False])
     @ [AddSubSection ''Progressive Overload Formula'',
      AddText ''Weeks 1-4: Master form with moderate weight'' 8 default_color False,
      AddText ''Weeks 5-8: Increase weight or reps by 5-10%'' 8 default_color False,
      AddText ''Weeks 9-12: New variations or higher intensity'' 8 default_color False,
      AddNewPage]"

text \<open>\<^verbatim>\<open>// === STRESS MANAGEMENT ===\<close>\<close>

definition stress_management ::
  "PersonalizationProfile \<Rightarrow> PersonalizationInsights \<Rightarrow> tier \<Rightarrow> cmd list" where
  "stress_management p i t =
     [AddHeaderSection ''Stress Management & Nervous System Optimization''
        (Some (name p @ '''s Daily Resilience Protocol'')),
      AddText (stressStrategy i) 9 default_color False,
      AddSubSection ''Daily Stress Management Tools'',
      AddBulletPoint ''Box Breathing: 4-4-4-4 count. Activates parasympathetic in 5 minutes.''
        8,
      AddBulletPoint ''Movement: 20-30 min moderate activity (walk, yoga, gym). Reduces cortisol comparable to medication.''
        8,
      AddBulletPoint ''Social connection: 30+ min meaningful interaction 3x/week.'' 8,
      AddBulletPoint ''Fix sleep first: One bad night increases anxiety by 60%.'' 8]
     @ (if t \<noteq> Free then
          [AddSubSection ''Advanced Stress Techniques'',
           AddBulletPoint ''Progressive Muscle Relaxation: Tense & release each muscle group''
             8,
           AddBulletPoint ''Meditation: 10-15 min daily (Headspace, Calm, or free YT)'' 8,
           AddBulletPoint ''Nature exposure: 20+ min in nature (park, forest) 1-2x/week'' 8,
           AddBulletPoint ''Creative hobbies: Art, music, or writing (activate parasympathetic)''
             8]
        else [])"

text \<open>\<^verbatim>\<open>// === SUPPLEMENTS ===\<close>\<close>

definition supplements :: "runtime \<Rightarrow> PersonalizationProfile \<Rightarrow> cmd list" where
  "supplements L p =
     [AddNewPage,
      AddHeaderSection ''Smart Supplement Strategy''
        (Some (name p @ '''s Science-Backed Nutritional Support'')),
      AddSubSection ''Your Supplement Priority Stack'']
     @ map (\<lambda>(idx, supp).
          AddText (numberToString L (real (idx + 1)) @ ''. '' @ supp) 9 default_color False)
        (enumerate 0 (supplementPriority p))
     @ [AddSubSection ''Supplement Timing Protocol'',
      AddText ''Morning (with breakfast):'' 9 (17, 24, 39) True,
      AddBulletPoint ''Vitamin D3: 2000-4000 IU (immune, mood, metabolism)'' 8,
      AddBulletPoint ''Omega-3 (fish oil or algae): 2-3g EPA+DHA'' 8,
      AddBulletPoint ''Multivitamin: If deficient (optional)'' 8,
      AddText ''Evening (with dinner):'' 9 (17, 24, 39) True,
      AddBulletPoint ''Magnesium: Only if prescribed or sleep issues'' 8,
      AddSubSection ''Supplement Selection Rules'',
      AddBulletPoint ''Start ONE supplement at a time (2-week minimum)'' 8,
      AddBulletPoint ''Buy from reputable brands: USP, NSF, Informed Choice certified'' 8,
      AddBulletPoint (''Food first '' @ em_dash
        @ '' supplements fill gaps, not replace real nutrition'') 8,
      AddBulletPoint ''Consult doctor before starting anything'' 8,
      AddBulletPoint ''Store in cool, dry place away from sunlight'' 8]"

text \<open>\<^verbatim>\<open>// === PROGRESS TRACKING ===\<close>\<close>

definition progress_tracking :: "PersonalizationProfile \<Rightarrow> cmd list" where
  "progress_tracking p =
     [AddNewPage,
      AddHeaderSection ''90-Day Progress Tracking System''
        (Some (name p @ '''s Transformation Timeline'')),
      AddSubSection ''Weekly Check-In (2 Minutes)'',
      AddText ''Track every Sunday evening:'' 9 default_color False,
      AddBulletPoint ''Energy levels (morning, midday, evening): 1-10 scale'' 8,
      AddBulletPoint ''Sleep quality & duration: hours + 1-10 rating'' 8,
      AddBulletPoint ''Stress level: 1-10 scale'' 8,
      AddBulletPoint ''Workouts completed this week: __/3 or __/5'' 8,
      AddBulletPoint ''Meal plan adherence: __%'' 8,
      AddSubSection ''Monthly Assessment (Week 4, 8, 12)'',
      AddBulletPoint ''Photos: Same time, same place, same light (front & side)'' 8,
      AddBulletPoint ''Measurements: Weight, waist, chest, arms (if applicable)'' 8,
      AddBulletPoint ''Performance: Push-ups, squats, running time, etc.'' 8,
      AddBulletPoint ''Blood work: If doing 6 & 12 week testing'' 8,
      AddBulletPoint ''Mood & energy consistency'' 8,
      AddSubSection ''Expected 90-Day Timeline'',
      AddText ''Weeks 1-2: Sleep improves, energy stabilizes'' 8 default_color False,
      AddText ''Weeks 3-4: Mood lifts, stress improves, workouts feel easier''
        8 default_color False,
      AddText ''Weeks 5-8: Visible changes, muscle/strength gains'' 8 default_color False,
      AddText ''Weeks 9-12: Major transformation, habits feel automatic''
        8 default_color False]"

text \<open>
  \<^verbatim>\<open>// === ACTION PLAN ===\<close>, to the end of the drawing code: the plan itself, then a
  new page with the closing remarks.
\<close>

definition action_plan :: "PersonalizationProfile \<Rightarrow> PDFGenerationOptions \<Rightarrow> cmd list" where
  "action_plan p opts =
     [AddNewPage,
      AddHeaderSection ''Your 90-Day Action Plan''
        (Some (name p @ '''s Step-by-Step Implementation'')),
      AddText ''Week 1: Foundation'' 9 (17, 24, 39) True,
      AddBulletPoint ''Review this entire blueprint thoroughly'' 8,
      AddBulletPoint ''Schedule baseline blood work (if recommended)'' 8,
      AddBulletPoint ''Setup meal prep container and grocery plan'' 8,
      AddBulletPoint ''Create tracking system (spreadsheet or app)'' 8,
      AddText ''Weeks 2-4: System Establishment'' 9 (17, 24, 39) True,
      AddBulletPoint ''Lock in meal times (most important step)'' 8,
      AddBulletPoint ''Complete 3-4 workouts, focus on form'' 8,
      AddBulletPoint ''Practice daily stress management (5 min minimum)'' 8,
      AddBulletPoint ''Track sleep, energy, mood daily'' 8,
      AddText ''Weeks 5-12: Momentum & Optimization'' 9 (17, 24, 39) True,
      AddBulletPoint ''Adjust calories/macros based on results'' 8,
      AddBulletPoint ''Increase workout intensity or volume'' 8,
      AddBulletPoint ''Refine supplement stack if needed'' 8,
      AddBulletPoint (''Build lasting habits'' @ em_dash
        @ ''consistency beats perfection'') 8,
      AddNewPage,
      SetFontSize 14, SetTextColor (124, 58, 237), SetFont True,
      PdfText ''Remember: Small consistent steps create lasting transformation.'',
      Advance 8,
      SetFontSize 10, SetTextColor (17, 24, 39), SetFont False,
      PdfText (name p
        @ '', you have the evidence-based roadmap. Commit to the process, and results will follow.''),
      Advance 10,
      SetFontSize 8, SetTextColor (107, 114, 128),
      PdfText ''This blueprint is for educational purposes and not medical advice.'',
      Advance 4,
      PdfText ''Always consult healthcare professionals before major lifestyle changes.'',
      Advance 4,
      PdfText (''Generated by Genewell Wellness '' @ bullet_glyph @ '' Order: ''
        @ orderId opts)]"

section \<open>The generator\<close>

text \<open>
  The blocks in the order of the source, each under the test of the tier that guards it
  there (the meal-plan block inside the test of the nutrition plan).
\<close>

definition compose ::
  "runtime \<Rightarrow> PersonalizationData \<Rightarrow> PDFGenerationOptions
     \<Rightarrow> (report_section \<times> cmd list) list" where
  "compose L pd opts =
     (let p = profile pd; i = insights pd; t = tier opts in
        [(Cover, cover_page L p opts),
         (TopActions, top_actions p i),
         (ExecutiveSummary, executive_summary L p i)]
        @ (if t = Premium \<or> t = Coaching then [(ScienceUpdates, premium_insights)] else [])
        @ (if t \<noteq> Free then [(MetabolicProfile, metabolic_profile L p)] else [])
        @ (if t = Essential \<or> t = Premium \<or> t = Coaching then
             (NutritionPlan, nutrition_plan p i)
             # (if t = Premium \<or> t = Coaching then [(MealPlanDetail, meal_plan_detail)]
                else [])
           else [])
        @ [(SleepProtocol, sleep_optimization p i t)]
        @ (if t = Essential \<or> t = Premium \<or> t = Coaching then
             [(MovementPlan, movement_fitness p i t)]
           else [])
        @ [(StressManagement, stress_management p i t)]
        @ (if t = Premium \<or> t = Coaching then [(Supplements, supplements L p)] else [])
        @ [(ProgressTracking, progress_tracking p),
           (ActionPlan, action_plan p opts)])"

definition sections ::
  "runtime \<Rightarrow> PersonalizationData \<Rightarrow> PDFGenerationOptions \<Rightarrow> report_section list" where
  "sections L pd opts = map fst (compose L pd opts)"

definition script ::
  "runtime \<Rightarrow> PersonalizationData \<Rightarrow> PDFGenerationOptions \<Rightarrow> cmd list" where
  "script L pd opts = concat (map snd (compose L pd opts))"

text \<open>
  The file name: \<^verbatim>\<open>\w\<close> is a letter, a digit or the underscore; \<^verbatim>\<open>\s\<close> is, among the
  ASCII characters, the tab, the line feed, the vertical tab, the form feed, the carriage
  return and the space. On an ASCII name the definitions below are the source's
  \<^verbatim>\<open>toLowerCase().replace(/[^\w\s-]/g, "").replace(/\s+/g, "-")\<close>; the bytes of other
  characters are dropped.
\<close>

definition is_word_char :: "char \<Rightarrow> bool" where
  "is_word_char c \<longleftrightarrow> c \<in> set (lower_letters @ upper_letters @ digits @ ''_'')"

definition is_space_char :: "char \<Rightarrow> bool" where
  "is_space_char c \<longleftrightarrow>
     c \<in> set [CHR 0x09, CHR 0x0A, CHR 0x0B, CHR 0x0C, CHR 0x0D, CHR '' '']"

definition strip_other :: "string \<Rightarrow> string" where
  "strip_other s = filter (\<lambda>c. is_word_char c \<or> is_space_char c \<or> c = CHR ''-'') s"

function hyphenate_spaces :: "string \<Rightarrow> string" where
  "hyphenate_spaces [] = []"
| "hyphenate_spaces (c # cs) =
     (if is_space_char c then CHR ''-'' # hyphenate_spaces (dropWhile is_space_char cs)
      else c # hyphenate_spaces cs)"
  by pat_completeness auto
termination
  by (relation "measure length") (auto simp: length_dropWhile_le less_Suc_eq_le)

definition sanitizedName :: "string \<Rightarrow> string" where
  "sanitizedName n = hyphenate_spaces (strip_other (toLowerCase n))"

definition filename_of :: "PersonalizationProfile \<Rightarrow> PDFGenerationOptions \<Rightarrow> string" where
  "filename_of p opts =
     sanitizedName (name p) @ ''_'' @ tier_string (tier opts) @ ''_blueprint_''
       @ orderId opts @ ''.pdf''"

text \<open>
  The result: the finished jsPDF object, from which \<^verbatim>\<open>pdf.output("blob")\<close> is taken, and
  the file name. The add-ons and the language are received with their defaults.
\<close>

record generated =
  document :: pdf
  filename :: string

definition selectedAddOns :: "PDFGenerationOptions \<Rightarrow> string list" where
  "selectedAddOns opts = (case addOns opts of None \<Rightarrow> [] | Some a \<Rightarrow> a)"

definition selectedLanguage :: "PDFGenerationOptions \<Rightarrow> language" where
  "selectedLanguage opts = (case language opts of None \<Rightarrow> En | Some l \<Rightarrow> l)"

definition generatePersonalizedPDFClient ::
  "runtime \<Rightarrow> PersonalizationData \<Rightarrow> PDFGenerationOptions \<Rightarrow> generated" where
  "generatePersonalizedPDFClient L pd opts =
     (let addOns = selectedAddOns opts;
          language = selectedLanguage opts
      in \<lparr>document = run L (script L pd opts) new_jsPDF,
          filename = filename_of (profile pd) opts\<rparr>)"

section \<open>The page estimate of the download page\<close>

text \<open>
  \<^verbatim>\<open>generatePDF\<close> in \<^verbatim>\<open>Download.tsx\<close> counts one page for each block it expects, under
  the tests of the tier that the generator uses, and stores the sum as \<^verbatim>\<open>pageCount\<close>.
\<close>

definition estimatedPageCount :: "tier \<Rightarrow> nat" where
  "estimatedPageCount planTier =
     1 + 1 + 1
     + (if planTier = Premium \<or> planTier = Coaching then 1 else 0)
     + (if planTier \<noteq> Free then 1 else 0)
     + (if planTier = Essential \<or> planTier = Premium \<or> planTier = Coaching then
          1 + (if planTier = Premium \<or> planTier = Coaching then 1 else 0)
        else 0)
     + 1
     + (if planTier = Essential \<or> planTier = Premium \<or> planTier = Coaching then 1 else 0)
     + 1
     + (if planTier = Premium \<or> planTier = Coaching then 1 else 0)
     + 1 + 1"

section \<open>The tier order and the inclusion table\<close>

text \<open>The order of the tiers: free, then essential, then premium, then coaching.\<close>

fun tier_rank :: "tier \<Rightarrow> nat" where
  "tier_rank Free = 0"
| "tier_rank Essential = 1"
| "tier_rank Premium = 2"
| "tier_rank Coaching = 3"



section \<open>A concrete run\<close>

text \<open>
  A runtime, a profile and options on which the statements below are instantiated: an
  A4 page in millimetres as jsPDF reports it, a text wrapper that breaks at line feeds
  only, whole numbers printed in decimal, and the date and time read off the ISO
  timestamp.
\<close>

fun split_lines :: "string \<Rightarrow> string \<Rightarrow> string list" where
  "split_lines acc [] = [rev acc]"
| "split_lines acc (c # cs) =
     (if c = CHR 0x0A then rev acc # split_lines [] cs else split_lines (c # acc) cs)"

function decimal :: "nat \<Rightarrow> string" where
  "decimal n = (if n < 10 then [digits ! n] else decimal (n div 10) @ [digits ! (n mod 10)])"
  by pat_completeness auto
termination
  by (relation "measure id") auto

definition whole_number :: "real \<Rightarrow> string" where
  "whole_number r = (if r < 0 then ''-'' @ decimal (nat \<lfloor>- r\<rfloor>) else decimal (nat \<lfloor>r\<rfloor>))"

definition a4_runtime :: runtime where
  "a4_runtime =
     \<lparr>pageWidth = 595.28 * 25.4 / 72, pageHeight = 841.89 * 25.4 / 72,
      splitTextToSize = (\<lambda>fsize bold text width. split_lines [] text),
      numberToString = whole_number,
      toLocaleDateString = take 10,
      toLocaleTimeString = (\<lambda>ts. take 8 (drop 11 ts))\<rparr>"

definition scenario_profile :: PersonalizationProfile where
  "scenario_profile =
     \<lparr>name = ''Asha Rao'', email = ''asha@example.com'', age = 30, gender = ''female'',
      estimatedHeightCm = 162, estimatedWeightKg = 58, estimatedBMR = 1320,
      estimatedTDEE = 2000, proteinGrams = 125, carbsGrams = 225, fatsGrams = 67,
      stressScore = 55, sleepScore = 70, activityScore = 60, energyScore = 65,
      medicalConditions = [], digestiveIssues = [], foodIntolerances = [],
      skinConcerns = [], dietaryPreference = ''vegetarian'',
      exercisePreference = [''yoga''], workSchedule = ''9-to-5'', region = ''south'',
      recommendedTests = [''Vitamin D'', ''Vitamin B12'', ''Thyroid panel''],
      supplementPriority = [''Vitamin D3'', ''Magnesium''],
      exerciseIntensity = ''moderate'', mealFrequency = 3, dnaConsent = False\<rparr>"

definition scenario_insights :: PersonalizationInsights where
  "scenario_insights =
     \<lparr>metabolicInsight = ''Your metabolism is moderately active.'',
      recommendedMealTimes = [''07:30 AM'', ''12:30 PM'', ''07:00 PM''],
      calorieRange = \<lparr>min_calories = 1800, max_calories = 2200\<rparr>,
      macroRatios = \<lparr>protein = 25, carbs = 45, fats = 30\<rparr>,
      supplementStack = [],
      workoutStrategy = ''Three sessions a week.'',
      sleepStrategy = ''Keep a fixed wake time of 07:00.'',
      stressStrategy = ''Breathe before meals.''\<rparr>"

definition scenario_data :: PersonalizationData where
  "scenario_data = \<lparr>profile = scenario_profile, insights = scenario_insights\<rparr>"

definition scenario_options :: PDFGenerationOptions where
  "scenario_options =
     \<lparr>tier = Essential, addOns = Some [], orderId = ''order42'',
      timestamp = ''2024-05-01T09:30:00.000Z'', language = Some En\<rparr>"


definition scenario_insights_other :: PersonalizationInsights where
  "scenario_insights_other =
     scenario_insights\<lparr>calorieRange := \<lparr>min_calories = 1000, max_calories = 1200\<rparr>,
       macroRatios := \<lparr>protein = 40, carbs = 40, fats = 20\<rparr>,
       supplementStack := [\<lparr>supplement_name = ''Zinc'', reason = ''immunity'',
         dosage = ''15mg''\<rparr>]\<rparr>"


section \<open>Placement of drawings\<close>

text \<open>
  The page and the y-coordinate of a drawing; whether it is the first drawing of a block
  that one of the four helpers places (the title of a header or of a subsection, a
  paragraph, a bullet); the height by which the helper moves the cursor past it.
\<close>

fun page_of :: "drawing \<Rightarrow> nat" where
  "page_of (TextAt og pg x y lines fsize bold col) = pg"
| "page_of (LineAt pg x1 y1 x2 y2 col) = pg"

fun top :: "drawing \<Rightarrow> real" where
  "top (TextAt og pg x y lines fsize bold col) = y"
| "top (LineAt pg x1 y1 x2 y2 col) = y1"

fun block_top :: "drawing \<Rightarrow> bool" where
  "block_top (TextAt og pg x y lines fsize bold col) =
     (og = HeaderTitle \<or> og = SubSectionTitle \<or> og = Paragraph \<or> og = Bullet)"
| "block_top (LineAt pg x1 y1 x2 y2 col) = False"

text \<open>What one call adds to the drawings.\<close>

definition added :: "runtime \<Rightarrow> cmd \<Rightarrow> pdf \<Rightarrow> drawing list" where
  "added L c s = drop (length (drawn s)) (drawn (exec L c s))"

text \<open>The argument that each helper hands to \<^verbatim>\<open>checkPageBreak\<close>.\<close>

fun allowance :: "cmd \<Rightarrow> real option" where
  "allowance (AddHeaderSection title subtitle) = Some 15"
| "allowance (AddSubSection title) = Some 10"
| "allowance (AddText text fsize color isBold) = Some 8"
| "allowance (AddBulletPoint text fsize) = Some 6"
| "allowance _ = None"

text \<open>
  Insights with long texts: a metabolic insight of sixty lines and a lunch time of seventy
  lines.
\<close>

definition long_insights :: PersonalizationInsights where
  "long_insights =
     scenario_insights\<lparr>metabolicInsight := concat (replicate 60 (''x'' @ newline)),
       recommendedMealTimes :=
         [''07:30 AM'', concat (replicate 70 (''x'' @ newline)), ''07:00 PM'']\<rparr>"

definition long_data :: PersonalizationData where
  "long_data = \<lparr>profile = scenario_profile, insights = long_insights\<rparr>"

text \<open>A state late on the first page.\<close>

definition low_cursor :: pdf where
  "low_cursor = new_jsPDF\<lparr>yPosition := 280\<rparr>"

definition tops_within :: "runtime \<Rightarrow> pdf \<Rightarrow> bool" where
  "tops_within L s \<longleftrightarrow>
     (\<forall>d \<in> set (drawn s). block_top d \<longrightarrow> top d \<le> pageHeight L - margin)"





section \<open>Auxiliary facts\<close>

lemma run_Nil: "run L [] s = s"
  by (simp add: run_def)

lemma run_Cons: "run L (c # cs) s = run L cs (exec L c s)"
  by (simp add: run_def)

lemma run_append: "run L (xs @ ys) s = run L ys (run L xs s)"
  by (simp add: run_def)

text \<open>The sections of each tier.\<close>

lemma sections_by_tier:
  "sections L pd opts =
     (case tier opts of
        Free \<Rightarrow>
          [Cover, TopActions, ExecutiveSummary, SleepProtocol, StressManagement,
           ProgressTracking, ActionPlan]
      | Essential \<Rightarrow>
          [Cover, TopActions, ExecutiveSummary, MetabolicProfile, NutritionPlan,
           SleepProtocol, MovementPlan, StressManagement, ProgressTracking, ActionPlan]
      | _ \<Rightarrow>
          [Cover, TopActions, ExecutiveSummary, ScienceUpdates, MetabolicProfile,
           NutritionPlan, MealPlanDetail, SleepProtocol, MovementPlan, StressManagement,
           Supplements, ProgressTracking, ActionPlan])"
  by (cases "tier opts") (simp_all add: sections_def compose_def Let_def)

text \<open>The blocks read the options and the insights only through a few fields.\<close>

lemma cover_page_cong:
  "tier o1 = tier o2 \<Longrightarrow> orderId o1 = orderId o2 \<Longrightarrow> timestamp o1 = timestamp o2
     \<Longrightarrow> cover_page L p o1 = cover_page L p o2"
  by (simp add: cover_page_def)

lemma action_plan_cong: "orderId o1 = orderId o2 \<Longrightarrow> action_plan p o1 = action_plan p o2"
  by (simp add: action_plan_def)

lemma filename_of_cong:
  "tier o1 = tier o2 \<Longrightarrow> orderId o1 = orderId o2 \<Longrightarrow> filename_of p o1 = filename_of p o2"
  by (simp add: filename_of_def)

lemma script_cong:
  assumes "tier o1 = tier o2" and "orderId o1 = orderId o2" and "timestamp o1 = timestamp o2"
  shows "script L pd o1 = script L pd o2"
  using assms cover_page_cong [OF assms, of L "profile pd"]
    action_plan_cong [OF assms(2), of "profile pd"]
  by (simp add: script_def compose_def Let_def)


lemma document_generated:
  "document (generatePersonalizedPDFClient L pd opts) = run L (script L pd opts) new_jsPDF"
  by (simp add: generatePersonalizedPDFClient_def Let_def)

lemma generated_eqI:
  "script L pd o1 = script L' pd' o2 \<Longrightarrow> filename_of (profile pd) o1 = filename_of (profile pd') o2
     \<Longrightarrow> L = L' \<Longrightarrow> generatePersonalizedPDFClient L pd o1 = generatePersonalizedPDFClient L' pd' o2"
  by (simp add: generatePersonalizedPDFClient_def Let_def)

lemma insights_blocks_cong:
  assumes "metabolicInsight i1 = metabolicInsight i2"
    and "recommendedMealTimes i1 = recommendedMealTimes i2"
    and "workoutStrategy i1 = workoutStrategy i2"
    and "sleepStrategy i1 = sleepStrategy i2"
    and "stressStrategy i1 = stressStrategy i2"
  shows "top_actions p i1 = top_actions p i2"
    and "executive_summary L p i1 = executive_summary L p i2"
    and "nutrition_plan p i1 = nutrition_plan p i2"
    and "sleep_optimization p i1 t = sleep_optimization p i2 t"
    and "movement_fitness p i1 t = movement_fitness p i2 t"
    and "stress_management p i1 t = stress_management p i2 t"
  using assms
  by (simp_all add: top_actions_def executive_summary_def nutrition_plan_def
      sleep_optimization_def movement_fitness_def stress_management_def)


text \<open>With a TDEE other than zero, the percentages printed are the rounded ones.\<close>

lemma pct_text_printed:
  assumes "estimatedTDEE p \<noteq> 0"
  shows "pct_text L (proteinGrams p) 4 (estimatedTDEE p)
           = numberToString L (real_of_int (proteinPct p))"
    and "pct_text L (carbsGrams p) 4 (estimatedTDEE p)
           = numberToString L (real_of_int (carbsPct p))"
    and "pct_text L (fatsGrams p) 9 (estimatedTDEE p)
           = numberToString L (real_of_int (fatsPct p))"
  using assms by (simp_all add: pct_text_def proteinPct_def carbsPct_def fatsPct_def)




text \<open>Pages are only ever added, and every call of \<^verbatim>\<open>addNewPage\<close> adds one.\<close>

lemma pages_checkPageBreak: "pages s \<le> pages (checkPageBreak L k s)"
  by (simp add: checkPageBreak_def addNewPage_def)

lemma pages_exec: "pages s \<le> pages (exec L c s)"
  by (cases c)
     (simp_all add: draw_def addNewPage_def addHeaderSection_def addSubSection_def addText_def
       addBulletPoint_def Let_def pages_checkPageBreak split: option.splits)

lemma pages_run: "pages s + count_list cs AddNewPage \<le> pages (run L cs s)"
proof (induction cs arbitrary: s)
  case Nil
  then show ?case by (simp add: run_Nil)
next
  case (Cons c cs)
  have "pages s + count_list (c # cs) AddNewPage
          \<le> pages (exec L c s) + count_list cs AddNewPage"
  proof (cases "c = AddNewPage")
    case True
    then show ?thesis by (simp add: addNewPage_def)
  next
    case False
    then show ?thesis using pages_exec [of s L c] by simp
  qed
  also have "\<dots> \<le> pages (run L cs (exec L c s))"
    by (rule Cons.IH)
  finally show ?case by (simp add: run_Cons)
qed

lemma count_map_bullet: "count_list (map (\<lambda>t. AddBulletPoint t n) xs) AddNewPage = 0"
  by (induction xs) simp_all

lemma count_map_text:
  "count_list (map (\<lambda>(i, t). AddText (f i t) n c b) xs) AddNewPage = 0"
  by (induction xs) auto

lemma new_pages_blocks:
  "count_list (cover_page L p opts) AddNewPage = 1"
  "count_list (top_actions p i) AddNewPage = 1"
  "count_list (executive_summary L p i) AddNewPage = 0"
  "count_list premium_insights AddNewPage = 1"
  "count_list (metabolic_profile L p) AddNewPage = 2"
  "count_list (nutrition_plan p i) AddNewPage = 0"
  "count_list meal_plan_detail AddNewPage = 2"
  "count_list (sleep_optimization p i t) AddNewPage = 1"
  "count_list (movement_fitness p i t) AddNewPage = 1"
  "count_list (stress_management p i t) AddNewPage = 0"
  "count_list (supplements L p) AddNewPage = 1"
  "count_list (progress_tracking p) AddNewPage = 1"
  "count_list (action_plan p opts) AddNewPage = 2"
  by (simp_all add: cover_page_def top_actions_def executive_summary_def premium_insights_def
      metabolic_profile_def nutrition_plan_def meal_plan_detail_def sleep_optimization_def
      movement_fitness_def stress_management_def supplements_def progress_tracking_def
      action_plan_def count_map_bullet count_map_text)

lemma new_pages_script:
  "count_list (script L pd opts) AddNewPage =
     (case tier opts of Free \<Rightarrow> 6 | Essential \<Rightarrow> 9 | Premium \<Rightarrow> 13 | Coaching \<Rightarrow> 13)"
  by (cases "tier opts") (simp_all add: script_def compose_def Let_def new_pages_blocks)

text \<open>The page-break test keeps the top of a helper's block above the bottom margin.\<close>

lemma drawn_checkPageBreak: "drawn (checkPageBreak L k s) = drawn s"
  by (simp add: checkPageBreak_def addNewPage_def)

lemma y_checkPageBreak:
  "2 * margin \<le> pageHeight L \<Longrightarrow> 0 \<le> k
     \<Longrightarrow> yPosition (checkPageBreak L k s) \<le> pageHeight L - margin"
  by (simp add: checkPageBreak_def addNewPage_def)

lemma tops_within_exec:
  assumes "2 * margin \<le> pageHeight L" and "tops_within L s"
  shows "tops_within L (exec L c s)"
  using assms y_checkPageBreak [OF assms(1), of _ s]
  by (cases c)
     (auto simp: tops_within_def draw_def addNewPage_def addHeaderSection_def
       addSubSection_def addText_def addBulletPoint_def Let_def drawn_checkPageBreak
       split: option.splits)

lemma tops_within_run:
  "2 * margin \<le> pageHeight L \<Longrightarrow> tops_within L s \<Longrightarrow> tops_within L (run L cs s)"
  by (induction cs arbitrary: s) (simp_all add: run_Nil run_Cons tops_within_exec)

lemma step_break:
  "pages (exec L c s) \<noteq> pages s \<Longrightarrow>
     pages (exec L c s) = Suc (pages s)
     \<and> (case added L c s of
          [] \<Rightarrow> yPosition (exec L c s) = margin
        | d # _ \<Rightarrow> top d = margin \<and> page_of d = Suc (pages s))"
  by (cases c)
     (auto simp: added_def draw_def checkPageBreak_def addNewPage_def addHeaderSection_def
       addSubSection_def addText_def addBulletPoint_def Let_def
       split: option.splits if_splits)

lemma step_allowance:
  "allowance c = Some a \<Longrightarrow>
     pages (exec L c s)
       = (if yPosition s + a > pageHeight L - margin then Suc (pages s) else pages s)"
  by (cases c)
     (auto simp: draw_def checkPageBreak_def addNewPage_def addHeaderSection_def
       addSubSection_def addText_def addBulletPoint_def Let_def
       split: option.splits if_splits)

text \<open>Drawings are never removed.\<close>

lemma drawn_exec_prefix: "prefix (drawn s) (drawn (exec L c s))"
  by (cases c)
     (auto simp: draw_def checkPageBreak_def addNewPage_def addHeaderSection_def
       addSubSection_def addText_def addBulletPoint_def Let_def
       split: option.splits if_splits)

lemma drawn_run_prefix: "prefix (drawn s) (drawn (run L cs s))"
proof (induction cs arbitrary: s)
  case Nil
  then show ?case by (simp add: run_Nil)
next
  case (Cons c cs)
  from drawn_exec_prefix [of s L c] Cons.IH [of "exec L c s"]
  show ?case by (auto simp: run_Cons intro: prefix_order.trans)
qed

lemma drawn_prefix_script:
  assumes "prefix xs ys"
  shows "set (drawn (run L xs s)) \<subseteq> set (drawn (run L ys s))"
proof -
  from assms obtain zs where "ys = xs @ zs"
    by (auto simp: prefix_def)
  then have "prefix (drawn (run L xs s)) (drawn (run L ys s))"
    by (simp add: run_append drawn_run_prefix)
  then show ?thesis by (rule set_mono_prefix)
qed

lemma script_starts:
  "prefix (cover_page L (profile pd) opts @ top_actions (profile pd) (insights pd)
            @ take 2 (executive_summary L (profile pd) (insights pd)))
     (script L pd opts)"
  by (simp add: script_def compose_def Let_def executive_summary_def)

section \<open>Sections and tiers\<close>



text \<open>
  C2. Two configurations for the same profile and insights (the add-ons play no part):
  when the tier of the first lies below the tier of the second, every section of the
  first document is a section of the second.
\<close>

theorem tier_monotone:
  assumes "tier_rank (tier cfg1) < tier_rank (tier cfg2)"
  shows "set (sections L pd cfg1) \<subseteq> set (sections L pd cfg2)"
  using assms
  by (cases "tier cfg1"; cases "tier cfg2") (simp_all add: sections_by_tier)

theorem tier_monotone_witness:
  "tier_rank (tier scenario_options) < tier_rank (tier (scenario_options\<lparr>tier := Premium\<rparr>))
   \<and> set (sections a4_runtime scenario_data scenario_options)
       \<subseteq> set (sections a4_runtime scenario_data (scenario_options\<lparr>tier := Premium\<rparr>))"
proof -
  have lt: "tier_rank (tier scenario_options)
              < tier_rank (tier (scenario_options\<lparr>tier := Premium\<rparr>))"
    by (simp add: scenario_options_def)
  from tier_monotone [OF lt] lt show ?thesis by blast
qed


section \<open>What the output depends on\<close>



text \<open>
  C9. The selected add-ons have no effect: options that differ only in the add-ons give
  the same document and the same file name.
\<close>

theorem addOns_ignored:
  "generatePersonalizedPDFClient L pd (opts\<lparr>addOns := a1\<rparr>)
     = generatePersonalizedPDFClient L pd (opts\<lparr>addOns := a2\<rparr>)"
  by (intro generated_eqI script_cong filename_of_cong) simp_all

text \<open>
  C10. Insights that agree on the metabolic insight, the meal times and the three
  strategies give the same result, whatever their macro ratios, calorie range and
  supplement stack: the percentages come from the gram targets and the TDEE of the
  profile, the supplement list from its supplement priority.
\<close>

theorem unused_insights_ignored:
  assumes "metabolicInsight i1 = metabolicInsight i2"
    and "recommendedMealTimes i1 = recommendedMealTimes i2"
    and "workoutStrategy i1 = workoutStrategy i2"
    and "sleepStrategy i1 = sleepStrategy i2"
    and "stressStrategy i1 = stressStrategy i2"
  shows "generatePersonalizedPDFClient L \<lparr>profile = p, insights = i1\<rparr> opts
           = generatePersonalizedPDFClient L \<lparr>profile = p, insights = i2\<rparr> opts"
proof (rule generated_eqI)
  show "script L \<lparr>profile = p, insights = i1\<rparr> opts
          = script L \<lparr>profile = p, insights = i2\<rparr> opts"
    by (simp add: script_def compose_def Let_def insights_blocks_cong [OF assms])
qed simp_all

theorem unused_insights_ignored_witness:
  "metabolicInsight scenario_insights = metabolicInsight scenario_insights_other
   \<and> recommendedMealTimes scenario_insights = recommendedMealTimes scenario_insights_other
   \<and> workoutStrategy scenario_insights = workoutStrategy scenario_insights_other
   \<and> sleepStrategy scenario_insights = sleepStrategy scenario_insights_other
   \<and> stressStrategy scenario_insights = stressStrategy scenario_insights_other
   \<and> macroRatios scenario_insights \<noteq> macroRatios scenario_insights_other
   \<and> generatePersonalizedPDFClient a4_runtime
        \<lparr>profile = scenario_profile, insights = scenario_insights\<rparr> scenario_options
       = generatePersonalizedPDFClient a4_runtime
        \<lparr>profile = scenario_profile, insights = scenario_insights_other\<rparr> scenario_options"
proof -
  have a: "metabolicInsight scenario_insights = metabolicInsight scenario_insights_other"
    and b: "recommendedMealTimes scenario_insights
              = recommendedMealTimes scenario_insights_other"
    and c: "workoutStrategy scenario_insights = workoutStrategy scenario_insights_other"
    and d: "sleepStrategy scenario_insights = sleepStrategy scenario_insights_other"
    and e: "stressStrategy scenario_insights = stressStrategy scenario_insights_other"
    by (simp_all add: scenario_insights_other_def)
  have f: "macroRatios scenario_insights \<noteq> macroRatios scenario_insights_other"
    by (simp add: scenario_insights_other_def scenario_insights_def)
  from unused_insights_ignored [OF a b c d e, of a4_runtime scenario_profile scenario_options]
    a b c d e f
  show ?thesis by blast
qed

section \<open>Macronutrient percentages\<close>




section \<open>The file name\<close>




section \<open>The page count\<close>

text \<open>
  C7. The download page reports 13 pages for the premium and for the coaching tier; the
  document of these tiers has at least 14 pages, whatever the profile, the insights and
  the runtime: the generator calls \<^verbatim>\<open>addNewPage\<close> thirteen times, the last time for the
  closing page that the estimate does not count, and pages are never removed.
\<close>

theorem page_estimate_below_document:
  "estimatedPageCount Premium = 13 \<and> estimatedPageCount Coaching = 13
   \<and> 14 \<le> pages (document (generatePersonalizedPDFClient L pd (opts\<lparr>tier := Premium\<rparr>)))
   \<and> 14 \<le> pages (document (generatePersonalizedPDFClient L pd (opts\<lparr>tier := Coaching\<rparr>)))"
proof -
  have "pages new_jsPDF + count_list (script L pd (opts\<lparr>tier := t\<rparr>)) AddNewPage
          \<le> pages (document (generatePersonalizedPDFClient L pd (opts\<lparr>tier := t\<rparr>)))" for t
    unfolding document_generated by (rule pages_run)
  from this [of Premium] this [of Coaching] show ?thesis
    by (simp add: new_pages_script new_jsPDF_def estimatedPageCount_def)
qed

section \<open>Page breaks\<close>

text \<open>
  On an A4 page the bottom limit is a little above 282. With a lunch time of seventy
  lines the third heading of the top-actions page, which is drawn without any test, lies
  at 342. With a metabolic insight of sixty lines the paragraph of the executive summary
  starts at 36 on the page of its header and needs 276.5: the test before it asked for 8.
\<close>

theorem page_break_counterexample:
  "TextAt Direct 2 15 342 [''3. Move for 20'' @ en_dash @ ''30 Minutes, 3x This Week'']
       12 True (124, 58, 237)
     \<in> set (drawn (document
         (generatePersonalizedPDFClient a4_runtime long_data scenario_options)))
   \<and> pageHeight a4_runtime - margin < 342
   \<and> TextAt Paragraph 3 15 36 (replicate 60 ''x'' @ ['''']) 10 False (17, 24, 39)
     \<in> set (drawn (document
         (generatePersonalizedPDFClient a4_runtime long_data scenario_options)))
   \<and> pageHeight a4_runtime - margin
       < 36 + (real (length (replicate 60 ''x'' @ [''''])) * 4.5 + 2)"
proof -
  have "TextAt Direct 2 15 342 [''3. Move for 20'' @ en_dash @ ''30 Minutes, 3x This Week'']
           12 True (124, 58, 237)
         \<in> set (drawn (run a4_runtime
             (cover_page a4_runtime (profile long_data) scenario_options
               @ top_actions (profile long_data) (insights long_data)
               @ take 2 (executive_summary a4_runtime (profile long_data)
                   (insights long_data)))
             new_jsPDF))
       \<and> TextAt Paragraph 3 15 36 (replicate 60 ''x'' @ ['''']) 10 False (17, 24, 39)
         \<in> set (drawn (run a4_runtime
             (cover_page a4_runtime (profile long_data) scenario_options
               @ top_actions (profile long_data) (insights long_data)
               @ take 2 (executive_summary a4_runtime (profile long_data)
                   (insights long_data)))
             new_jsPDF))"
    by code_simp
  moreover have "pageHeight a4_runtime - margin < 342"
    and "pageHeight a4_runtime - margin
           < 36 + (real (length (replicate 60 ''x'' @ [''''])) * 4.5 + 2)"
    by (simp_all add: a4_runtime_def margin_def)
  ultimately show ?thesis
    using drawn_prefix_script [OF script_starts [of a4_runtime long_data scenario_options],
        of a4_runtime new_jsPDF]
    unfolding document_generated by blast
qed

text \<open>
  C3, amended. On a page at least two margins high, every block that
  \<^verbatim>\<open>addHeaderSection\<close>, \<^verbatim>\<open>addSubSection\<close>, \<^verbatim>\<open>addText\<close> or \<^verbatim>\<open>addBulletPoint\<close> places
  starts at or above the page height less the margin. Whenever a call adds a page it adds
  exactly one, and the cursor is reset to the top margin: the first thing the call draws
  lies on the new page at the top margin, and a call that draws nothing leaves the cursor
  there. The space tested before a block is placed is the fixed allowance of its kind (15
  for a header, 10 for a subsection title, 8 for a paragraph, 6 for a bullet), not the
  measured height of the block: the page is broken exactly when the cursor plus the
  allowance exceeds the page height less the margin. The texts of the cover, of the
  top-actions page and of the closing page are drawn without a test.
\<close>

theorem page_break_behaviour:
  assumes "2 * margin \<le> pageHeight L"
  shows "(\<forall>d \<in> set (drawn (document (generatePersonalizedPDFClient L pd opts))).
            block_top d \<longrightarrow> top d \<le> pageHeight L - margin)
         \<and> (\<forall>c s. pages (exec L c s) \<noteq> pages s \<longrightarrow>
              pages (exec L c s) = Suc (pages s)
              \<and> (case added L c s of
                   [] \<Rightarrow> yPosition (exec L c s) = margin
                 | d # _ \<Rightarrow> top d = margin \<and> page_of d = Suc (pages s)))
         \<and> (\<forall>c s a. allowance c = Some a \<longrightarrow>
              pages (exec L c s)
                = (if yPosition s + a > pageHeight L - margin then Suc (pages s)
                   else pages s))"
proof -
  have "tops_within L new_jsPDF"
    by (simp add: tops_within_def new_jsPDF_def)
  with assms have "tops_within L (run L (script L pd opts) new_jsPDF)"
    by (rule tops_within_run)
  then have "\<forall>d \<in> set (drawn (document (generatePersonalizedPDFClient L pd opts))).
               block_top d \<longrightarrow> top d \<le> pageHeight L - margin"
    by (simp add: tops_within_def document_generated)
  with step_break [of L] step_allowance [of _ _ L] show ?thesis
    by blast
qed

theorem page_break_behaviour_witness:
  "2 * margin \<le> pageHeight a4_runtime
   \<and> list_all (\<lambda>d. block_top d \<longrightarrow> top d \<le> pageHeight a4_runtime - margin)
       (drawn (document (generatePersonalizedPDFClient a4_runtime scenario_data
          scenario_options)))
   \<and> pages (exec a4_runtime (AddText ''x'' 9 default_color False) low_cursor)
       \<noteq> pages low_cursor
   \<and> pages (exec a4_runtime (AddText ''x'' 9 default_color False) low_cursor)
       = Suc (pages low_cursor)
   \<and> (case added a4_runtime (AddText ''x'' 9 default_color False) low_cursor of
        [] \<Rightarrow> yPosition (exec a4_runtime (AddText ''x'' 9 default_color False) low_cursor)
               = margin
      | d # _ \<Rightarrow> top d = margin \<and> page_of d = Suc (pages low_cursor))
   \<and> allowance (AddText ''x'' 9 default_color False) = Some 8
   \<and> pageHeight a4_runtime - margin < yPosition low_cursor + 8"
proof -
  have h: "2 * margin \<le> pageHeight a4_runtime"
    by (simp add: a4_runtime_def margin_def)
  have y: "pageHeight a4_runtime - margin < yPosition low_cursor + 8"
    by (simp add: a4_runtime_def margin_def low_cursor_def new_jsPDF_def)
  have al: "allowance (AddText ''x'' 9 default_color False) = Some 8"
    by simp
  note T = page_break_behaviour [OF h, of scenario_data scenario_options]
  from T have 1: "list_all (\<lambda>d. block_top d \<longrightarrow> top d \<le> pageHeight a4_runtime - margin)
       (drawn (document (generatePersonalizedPDFClient a4_runtime scenario_data
          scenario_options)))"
    by (simp add: list_all_iff)
  from T al y
  have 3: "pages (exec a4_runtime (AddText ''x'' 9 default_color False) low_cursor)
             = Suc (pages low_cursor)"
    by (metis (full_types))
  then have 2: "pages (exec a4_runtime (AddText ''x'' 9 default_color False) low_cursor)
                  \<noteq> pages low_cursor"
    by simp
  with T have "case added a4_runtime (AddText ''x'' 9 default_color False) low_cursor of
        [] \<Rightarrow> yPosition (exec a4_runtime (AddText ''x'' 9 default_color False) low_cursor)
               = margin
      | d # _ \<Rightarrow> top d = margin \<and> page_of d = Suc (pages low_cursor)"
    by blast
  with h 1 2 3 al y show ?thesis by blast
qed

end
